theory Spec2Isabelle
  imports Main "HOL-Library.Multiset"
begin

unbundle bit_operations_syntax

section \<open>Python values used by the header engine\<close>

text \<open>
  Every \<open>raise\<close> of the modelled code, and every built-in exception it can run into, is a
  value of this type. \<open>FieldLengthMismatch\<close> is the \<open>ValueError\<close> raised by
  \<open>SegmentField.set_field_value\<close>, \<open>ByteOutOfRange\<close> the \<open>ValueError\<close> of a bytearray
  store outside \<open>range(256)\<close>, \<open>NoFieldError\<close> the \<open>ValueError\<close> a pydantic model raises
  when an attribute that is not one of its fields is assigned.
\<close>

datatype error =
    FieldLengthMismatch
  | InvalidLiteral
  | ByteOutOfRange
  | OverflowError
  | IndexError
  | AttributeError
  | NoFieldError
  | OffsetNotDigit
  | PortPeerNeeded
  | PortPeerInconsistent
  | PortGroupError string

text \<open>Index normalisation of Python sequences: a negative index counts from the end.\<close>

definition py_index :: "nat \<Rightarrow> int \<Rightarrow> nat option" where
  "py_index n i =
     (let j = (if i < 0 then i + int n else i)
      in if 0 \<le> j \<and> j < int n then Some (nat j) else None)"

text \<open>\<open>s[i]\<close> on a string: \<open>IndexError\<close> outside the string.\<close>

definition str_getitem :: "string \<Rightarrow> int \<Rightarrow> error + char" where
  "str_getitem s i =
     (case py_index (length s) i of None \<Rightarrow> Inl IndexError | Some j \<Rightarrow> Inr (s ! j))"

text \<open>\<open>s[:p]\<close> on a string: never raises, a negative bound counts from the end.\<close>

definition str_slice_to :: "string \<Rightarrow> int \<Rightarrow> string" where
  "str_slice_to s p = (if p < 0 then take (nat (int (length s) + p)) s else take (nat p) s)"


text \<open>
  \<open>bin(v)[2:]\<close>: the binary digits of a non-negative \<open>v\<close>; for a negative \<open>v\<close> the text of
  \<open>bin\<close> is \<open>-0b...\<close>, so dropping two characters leaves the letter \<open>b\<close> before the digits.
\<close>

fun bin_digits :: "nat \<Rightarrow> string" where
  "bin_digits n =
     (if n < 2 then [if n = 0 then CHR ''0'' else CHR ''1'']
      else bin_digits (n div 2) @ [if n mod 2 = 0 then CHR ''0'' else CHR ''1''])"

definition bin_from_2 :: "int \<Rightarrow> string" where
  "bin_from_2 v = (if v < 0 then CHR ''b'' # bin_digits (nat (- v)) else bin_digits (nat v))"

text \<open>\<open>s.zfill(width)\<close>: pads with zeros on the left, after a leading sign if there is one.\<close>

definition zfill :: "string \<Rightarrow> int \<Rightarrow> string" where
  "zfill s width =
     (let fill = replicate (nat (width - int (length s))) CHR ''0''
      in case s of
           [] \<Rightarrow> fill
         | c # r \<Rightarrow> if c = CHR ''+'' \<or> c = CHR ''-'' then c # fill @ r else fill @ s)"





section \<open>Checksum fix-up (model/m-protocol-segment.py)\<close>






section \<open>Value generators and fields (model/m-protocol-segment.py)\<close>

datatype ModifierActionOption = INC | DEC | RANDOM

datatype EnumActions = INCR | DECR | RAND

text \<open>
  Both classes derive from plain \<open>Enum\<close>, whose members compare by identity: a member of one
  class never equals a member of the other, whatever their values. The two classes are the
  two summands of the type of enum members, and \<open>==\<close> between members is equality there.
\<close>

datatype enum_member =
    ModifierActionOption_member ModifierActionOption
  | EnumActions_member EnumActions

record ValueRange =
  start_value :: int
  step_value :: int
  stop_value :: int
  action :: EnumActions
  restart_for_each_port :: bool
  current_count :: int

definition reset :: "ValueRange \<Rightarrow> ValueRange" where
  "reset self = self\<lparr>current_count := 0\<rparr>"

text \<open>
  \<open>random.randint\<close> is a parameter: a function of the generator state and the two bounds
  that returns the draw and the next generator state.
\<close>

type_synonym 'g randint = "'g \<Rightarrow> int \<Rightarrow> int \<Rightarrow> int \<times> 'g"

definition get_current_value :: "'g randint \<Rightarrow> 'g \<Rightarrow> ValueRange \<Rightarrow> int \<times> 'g \<times> ValueRange" where
  "get_current_value randint g self =
     (case
        (if EnumActions_member (action self) = ModifierActionOption_member INC then
           (let current_value = start_value self + current_count self * step_value self
            in if current_value > stop_value self
               then (start_value self, g, reset self) else (current_value, g, self))
         else if EnumActions_member (action self) = ModifierActionOption_member DEC then
           (let current_value = start_value self - current_count self * step_value self
            in if current_value < stop_value self
               then (start_value self, g, reset self) else (current_value, g, self))
         else
           (let boundary = [start_value self, stop_value self];
                (current_value, g') = randint g (Min (set boundary)) (Max (set boundary))
            in (current_value, g', self)))
      of (current_value, g', self') \<Rightarrow>
        (current_value, g', self'\<lparr>current_count := current_count self' + 1\<rparr>))"

text \<open>The hardware modifier descriptor is carried along and never interpreted.\<close>

datatype HWModifier = HWModifier int int int int EnumActions int string

record SegmentField =
  name :: string
  value_str :: string
  bit_length :: int
  bit_segment_position :: int
  hw_modifier :: "HWModifier option"
  value_range :: "ValueRange option"

text \<open>
  \<open>apply_value_range_if_exists\<close> pulls the next generator value first, which advances the
  counter of the bound \<open>ValueRange\<close>, and then builds the result; the last operand of the
  concatenation is the single character \<open>self.value[position + bit_length]\<close>.
  The outcome is the returned string or the exception, with the generator state and the
  field as they are left.
\<close>

definition apply_value_range_if_exists ::
    "'g randint \<Rightarrow> 'g \<Rightarrow> SegmentField \<Rightarrow> (error + string) \<times> 'g \<times> SegmentField" where
  "apply_value_range_if_exists randint g self =
     (case value_range self of
        None \<Rightarrow> (Inr (value_str self), g, self)
      | Some vr \<Rightarrow>
          (case get_current_value randint g vr of (v, g', vr') \<Rightarrow>
             let self' = self\<lparr>value_range := Some vr'\<rparr>;
                 value_range_str = zfill (bin_from_2 v) (bit_length self)
             in (case str_getitem (value_str self) (bit_segment_position self + bit_length self) of
                   Inl e \<Rightarrow> Inl e
                 | Inr c \<Rightarrow>
                     Inr (str_slice_to (value_str self) (bit_segment_position self)
                          @ value_range_str @ [c]),
                 g', self')))"

definition SegmentField_prepare ::
    "'g randint \<Rightarrow> 'g \<Rightarrow> SegmentField \<Rightarrow> (error + string) \<times> 'g \<times> SegmentField" where
  "SegmentField_prepare randint g self = apply_value_range_if_exists randint g self"

definition set_field_value :: "SegmentField \<Rightarrow> string \<Rightarrow> (error + unit) \<times> SegmentField" where
  "set_field_value self new_value =
     (if int (length new_value) = bit_length self
      then (Inr (), self\<lparr>value_str := new_value\<rparr>)
      else (Inl FieldLengthMismatch, self))"

section \<open>Segments (model/m-protocol-segment.py)\<close>

text \<open>
  The record keeps the attributes \<open>Segment.prepare\<close> reads: the ordered field list
  \<open>fields\<close> (here \<open>segment_fields\<close>) and the optional checksum offset. The segment type tag and the two all-zero flags computed at
  construction are not read by \<open>prepare\<close>; they live in the extension slot of the record.
  The validator \<open>is_digit\<close> runs after the value has been parsed as \<open>Optional[int]\<close>, so
  \<open>isinstance(value, int)\<close> holds of every value it sees that is not \<open>None\<close>, and the
  value is returned as it is: an offset 0 is stored as 0.
\<close>

record Segment =
  segment_fields :: "SegmentField list"
  checksum_offset :: "int option"





section \<open>Configuration validation (dataset.py)\<close>

text \<open>
  Modelled from the spec: the enumerations \<open>PortGroup\<close>, \<open>TrafficDirection\<close> and
  \<open>TestTopology\<close> of \<open>utils/constants.py\<close>, which is not among the sources. The
  specification names the groups East, West and Undefined, the directions east-to-west and
  west-to-east, and the mesh and pair-based topologies; one more direction and one more
  topology stand for the members that are none of these.
\<close>

datatype PortGroup = EAST | WEST | UNDEFINED

datatype TrafficDirection = EAST_TO_WEST | WEST_TO_EAST | BIDIRECTION

datatype TestTopology = PAIRS | BLOCKS | MESH

text \<open>Modelled from the spec: the predicates of the missing enumerations.\<close>

definition is_east :: "PortGroup \<Rightarrow> bool" where
  "is_east g = (g = EAST)"

definition is_west :: "PortGroup \<Rightarrow> bool" where
  "is_west g = (g = WEST)"

definition is_pair_topology :: "TestTopology \<Rightarrow> bool" where
  "is_pair_topology t = (t = PAIRS)"

definition is_mesh_topology :: "TestTopology \<Rightarrow> bool" where
  "is_mesh_topology t = (t = MESH)"

text \<open>
  The class \<open>PortConfiguration\<close> of \<open>model/m_port_config.py\<close>. The record keeps the fields
  the validators touch, \<open>port_slot\<close>, \<open>peer_config_slot\<close> and \<open>port_group\<close>, and the
  private attributes \<open>_port_config_slot\<close>, \<open>_is_tx\<close> and \<open>_is_rx\<close> (here with the prefix
  \<open>private\<close>; their defaults are the empty string, true and true). The other fields of the
  class live in the extension slot of the record. The attributes of the test configuration
  read by the validators are the direction and the topology.
\<close>

record PortConfiguration =
  port_slot :: string
  peer_config_slot :: string
  port_group :: PortGroup
  private_port_config_slot :: string
  private_is_tx :: bool
  private_is_rx :: bool

record TestConfiguration =
  direction :: TrafficDirection
  topology :: TestTopology

text \<open>The read-only properties and the setter methods of the class.\<close>

definition is_tx_port :: "PortConfiguration \<Rightarrow> bool" where
  "is_tx_port self = private_is_tx self"

definition is_rx_port :: "PortConfiguration \<Rightarrow> bool" where
  "is_rx_port self = private_is_rx self"

definition is_loop :: "PortConfiguration \<Rightarrow> bool" where
  "is_loop self = (private_port_config_slot self = peer_config_slot self)"

definition set_name :: "PortConfiguration \<Rightarrow> string \<Rightarrow> PortConfiguration" where
  "set_name self new_name = self\<lparr>private_port_config_slot := new_name\<rparr>"

definition set_tx_port :: "PortConfiguration \<Rightarrow> bool \<Rightarrow> PortConfiguration" where
  "set_tx_port self v = self\<lparr>private_is_tx := v\<rparr>"

definition set_rx_port :: "PortConfiguration \<Rightarrow> bool \<Rightarrow> PortConfiguration" where
  "set_rx_port self v = self\<lparr>private_is_rx := v\<rparr>"

text \<open>
  \<open>dataset.py\<close> does not use these: it reads \<open>port.port_config_slot\<close> and assigns to
  \<open>port.port_config_slot\<close>, \<open>port.is_rx_port\<close> and \<open>port.is_tx_port\<close>. The class has no
  attribute \<open>port_config_slot\<close>, and a pydantic model has no fallback for an unknown
  attribute, so the read raises \<open>AttributeError\<close>. An assignment goes through the model's
  \<open>__setattr__\<close>, which raises \<open>ValueError\<close> for a name that is neither a field nor a
  private attribute; \<open>port_config_slot\<close> is neither, and \<open>is_rx_port\<close> and \<open>is_tx_port\<close>
  are properties without a setter.
\<close>

definition get_port_config_slot :: "PortConfiguration \<Rightarrow> error + string" where
  "get_port_config_slot port = Inl AttributeError"

definition assign_port_config_slot :: "PortConfiguration \<Rightarrow> string \<Rightarrow> error + PortConfiguration" where
  "assign_port_config_slot port v = Inl NoFieldError"

definition assign_is_rx_port :: "PortConfiguration \<Rightarrow> bool \<Rightarrow> error + PortConfiguration" where
  "assign_is_rx_port port v = Inl NoFieldError"

definition assign_is_tx_port :: "PortConfiguration \<Rightarrow> bool \<Rightarrow> error + PortConfiguration" where
  "assign_is_tx_port port v = Inl NoFieldError"

text \<open>
  \<open>ports_configuration\<close> is a dictionary from slot names to port configurations; it is
  walked in insertion order, so it is an association list, looked up with \<open>map_of\<close>.
  The argument \<open>values\<close> of a validator holds \<open>test_configuration\<close> only if that field
  validated; it is the optional first argument here.
\<close>

type_synonym PortConfType = "(string \<times> PortConfiguration) list"

text \<open>The body of the loop of \<open>set_ports_rx_tx_type\<close>, for one dictionary item.\<close>

definition set_port_rx_tx_type ::
    "TrafficDirection \<Rightarrow> string \<Rightarrow> PortConfiguration \<Rightarrow> error + PortConfiguration" where
  "set_port_rx_tx_type dir config_index port =
     (case get_port_config_slot port of Inl e \<Rightarrow> Inl e | Inr slot \<Rightarrow>
      case (if slot = [] then assign_port_config_slot port config_index else Inr port) of
        Inl e \<Rightarrow> Inl e | Inr port \<Rightarrow>
      case get_port_config_slot port of Inl e \<Rightarrow> Inl e | Inr slot \<Rightarrow>
        if slot = peer_config_slot port then Inr port
        else if dir = EAST_TO_WEST then
          (if is_east (port_group port) then assign_is_rx_port port False
           else if is_west (port_group port) then assign_is_tx_port port False
           else Inr port)
        else if dir = WEST_TO_EAST then
          (if is_east (port_group port) then assign_is_tx_port port False
           else if is_west (port_group port) then assign_is_rx_port port False
           else Inr port)
        else Inr port)"

text \<open>The loop over the items; the first exception ends it.\<close>

fun set_ports_loop :: "TrafficDirection \<Rightarrow> PortConfType \<Rightarrow> error + PortConfType" where
  "set_ports_loop dir [] = Inr []"
| "set_ports_loop dir ((config_index, port) # todo) =
     (case set_port_rx_tx_type dir config_index port of
        Inl e \<Rightarrow> Inl e
      | Inr port' \<Rightarrow>
          (case set_ports_loop dir todo of
             Inl e \<Rightarrow> Inl e
           | Inr rest \<Rightarrow> Inr ((config_index, port') # rest)))"

definition set_ports_rx_tx_type ::
    "TestConfiguration option \<Rightarrow> PortConfType \<Rightarrow> error + PortConfType" where
  "set_ports_rx_tx_type values port_configs =
     (case values of
        None \<Rightarrow> Inr port_configs
      | Some test_configuration \<Rightarrow> set_ports_loop (direction test_configuration) port_configs)"

definition count_port_group ::
    "PortConfiguration \<Rightarrow> bool \<Rightarrow> int \<Rightarrow> int \<Rightarrow> error + int \<times> int" where
  "count_port_group port_config uses_port_peer ports_in_east ports_in_west =
     (case get_port_config_slot port_config of
        Inl e \<Rightarrow> Inl e
      | Inr slot \<Rightarrow>
          (let is_looped = (slot = peer_config_slot port_config)
           in if is_east (port_group port_config) then
                Inr (ports_in_east + 1,
                     if uses_port_peer \<and> is_looped then ports_in_west + 1 else ports_in_west)
              else if is_west (port_group port_config) then
                Inr (if uses_port_peer \<and> is_looped then ports_in_east + 1 else ports_in_east,
                     ports_in_west + 1)
              else Inr (ports_in_east, ports_in_west)))"

text \<open>
  In \<open>check_port_peer\<close> the test for an empty peer slot and the test for a missing peer
  come before the read of \<open>port_config.port_config_slot\<close>.
\<close>

definition check_port_peer :: "PortConfiguration \<Rightarrow> PortConfType \<Rightarrow> error + unit" where
  "check_port_peer port_config ports_configuration =
     (let peer_slot = peer_config_slot port_config
      in if peer_slot = [] then Inl PortPeerNeeded
         else (case map_of ports_configuration peer_slot of
                 None \<Rightarrow> Inl PortPeerInconsistent
               | Some peer \<Rightarrow>
                   (case get_port_config_slot port_config of
                      Inl e \<Rightarrow> Inl e
                    | Inr slot \<Rightarrow>
                        if peer_config_slot peer \<noteq> slot
                        then Inl PortPeerInconsistent else Inr ())))"

text \<open>
  The first loop of \<open>check_port_groups_and_peers\<close>: \<open>todo\<close> is what is left of the items of
  \<open>v\<close>; the first exception ends the walk.
\<close>

fun check_ports_loop ::
    "TestTopology \<Rightarrow> bool \<Rightarrow> PortConfType \<Rightarrow> PortConfType \<Rightarrow> int \<Rightarrow> int \<Rightarrow> error + int \<times> int" where
  "check_ports_loop topo uses_port_peer v [] ports_in_east ports_in_west =
     Inr (ports_in_east, ports_in_west)"
| "check_ports_loop topo uses_port_peer v ((slot, port_config) # todo) ports_in_east ports_in_west =
     (case (if \<not> is_mesh_topology topo
            then count_port_group port_config uses_port_peer ports_in_east ports_in_west
            else Inr (ports_in_east, ports_in_west)) of
        Inl e \<Rightarrow> Inl e
      | Inr (ports_in_east, ports_in_west) \<Rightarrow>
          (case (if uses_port_peer then check_port_peer port_config v else Inr ()) of
             Inl e \<Rightarrow> Inl e
           | Inr _ \<Rightarrow> check_ports_loop topo uses_port_peer v todo ports_in_east ports_in_west))"

definition check_port_groups_and_peers ::
    "TestConfiguration option \<Rightarrow> PortConfType \<Rightarrow> error + PortConfType" where
  "check_port_groups_and_peers values v =
     (case values of
        None \<Rightarrow> Inr v
      | Some test_configuration \<Rightarrow>
          (let topo = topology test_configuration;
               uses_port_peer = is_pair_topology topo
           in case check_ports_loop topo uses_port_peer v v 0 0 of
                Inl e \<Rightarrow> Inl e
              | Inr (ports_in_east, ports_in_west) \<Rightarrow>
                  if \<not> is_mesh_topology topo then
                    (if ports_in_east = 0 then Inl (PortGroupError ''East'')
                     else if ports_in_west = 0 then Inl (PortGroupError ''West'')
                     else Inr v)
                  else Inr v))"

section \<open>Peer and modifier-range resolver (plugin/structure.py)\<close>

text \<open>
  A \<open>PortStruct\<close> is a plain class without \<open>__eq__\<close>, so the membership test
  \<open>peer not in self.peers\<close> compares object identities. A peer is therefore given by its
  identity and by the one attribute \<open>register_peer\<close> reads from it,
  \<open>peer.properties.test_port_index\<close>; the peer list holds identities.
\<close>

record PortStruct =
  port_ref :: nat
  properties_test_port_index :: int

text \<open>
  The dataclass \<open>Properties\<close> with its integer aggregates and its peer list. The three
  address-table sets of the dataclass (\<open>address_refresh_data_set\<close>, \<open>arp_trunks\<close>,
  \<open>ndp_trunks\<close>) are neither read nor written by the two methods below; they live in the
  extension slot of the record.
\<close>

record Properties =
  num_modifiersL2 :: int
  dest_port_count :: int
  test_port_index :: int
  high_dest_port_count :: int
  low_dest_port_count :: int
  lowest_dest_port_index :: int
  highest_dest_port_index :: int
  peers :: "nat list"

text \<open>The field defaults of the dataclass, as \<open>Properties()\<close> builds them.\<close>

definition Properties_default :: Properties where
  "Properties_default =
     \<lparr>num_modifiersL2 = 1, dest_port_count = 0, test_port_index = 0,
      high_dest_port_count = 0, low_dest_port_count = 0,
      lowest_dest_port_index = - 1, highest_dest_port_index = - 1, peers = []\<rparr>"

definition get_modifier_range :: "'a Properties_scheme \<Rightarrow> int \<Rightarrow> int \<times> int" where
  "get_modifier_range self stream_id =
     (if stream_id = 0 then
        (if num_modifiersL2 self = 2 then
           (lowest_dest_port_index self, test_port_index self - 1)
         else if dest_port_count self > 0 then
           (lowest_dest_port_index self, highest_dest_port_index self)
         else
           (test_port_index self, test_port_index self))
      else
        (test_port_index self + 1, highest_dest_port_index self))"

definition register_peer :: "'a Properties_scheme \<Rightarrow> PortStruct \<Rightarrow> 'a Properties_scheme" where
  "register_peer self peer =
     (let self = (if port_ref peer \<notin> set (peers self)
                  then self\<lparr>peers := peers self @ [port_ref peer]\<rparr> else self)
      in if properties_test_port_index peer = test_port_index self then self
         else
           let self = self\<lparr>dest_port_count := dest_port_count self + 1\<rparr>;
               self = (if properties_test_port_index peer < test_port_index self
                       then self\<lparr>low_dest_port_count := low_dest_port_count self + 1\<rparr>
                       else if properties_test_port_index peer > test_port_index self
                       then self\<lparr>high_dest_port_count := high_dest_port_count self + 1\<rparr>
                       else self);
               self = self\<lparr>num_modifiersL2 :=
                        (if low_dest_port_count self > 0 \<and> high_dest_port_count self > 0
                         then 2 else 1)\<rparr>;
               self = self\<lparr>lowest_dest_port_index :=
                        (if lowest_dest_port_index self = - 1
                         then properties_test_port_index peer
                         else min (lowest_dest_port_index self) (properties_test_port_index peer))\<rparr>;
               self = self\<lparr>highest_dest_port_index :=
                        (if highest_dest_port_index self = - 1
                         then properties_test_port_index peer
                         else max (highest_dest_port_index self) (properties_test_port_index peer))\<rparr>
           in self)"

text \<open>The six integer aggregates of a \<open>Properties\<close>, in the order count, low count, high count,
  lowest index, highest index, number of modifiers.\<close>

definition aggregates :: "'a Properties_scheme \<Rightarrow> int \<times> int \<times> int \<times> int \<times> int \<times> int" where
  "aggregates p =
     (dest_port_count p, low_dest_port_count p, high_dest_port_count p,
      lowest_dest_port_index p, highest_dest_port_index p, num_modifiersL2 p)"

section \<open>Properties of the peer and modifier-range resolver\<close>

lemma register_peer_index [simp]: "test_port_index (register_peer p q) = test_port_index p"
  by (simp add: register_peer_def Let_def)

lemma foldl_register_peer_index [simp]: "test_port_index (foldl register_peer p qs) = test_port_index p"
  by (induction qs rule: rev_induct) simp_all

lemma register_peer_dest_port_count:
  "dest_port_count (register_peer p q) =
     dest_port_count p + (if properties_test_port_index q = test_port_index p then 0 else 1)"
  by (simp add: register_peer_def Let_def)

lemma register_peer_low:
  "low_dest_port_count (register_peer p q) =
     low_dest_port_count p + (if properties_test_port_index q < test_port_index p then 1 else 0)"
  by (simp add: register_peer_def Let_def)

lemma register_peer_high:
  "high_dest_port_count (register_peer p q) =
     high_dest_port_count p + (if properties_test_port_index q > test_port_index p then 1 else 0)"
  by (simp add: register_peer_def Let_def)

lemma register_peer_lowest:
  "lowest_dest_port_index (register_peer p q) =
     (if properties_test_port_index q = test_port_index p then lowest_dest_port_index p
      else if lowest_dest_port_index p = - 1 then properties_test_port_index q
      else min (lowest_dest_port_index p) (properties_test_port_index q))"
  by (simp add: register_peer_def Let_def)

lemma register_peer_highest:
  "highest_dest_port_index (register_peer p q) =
     (if properties_test_port_index q = test_port_index p then highest_dest_port_index p
      else if highest_dest_port_index p = - 1 then properties_test_port_index q
      else max (highest_dest_port_index p) (properties_test_port_index q))"
  by (simp add: register_peer_def Let_def)

lemma register_peer_num_modifiersL2:
  "num_modifiersL2 (register_peer p q) =
     (if properties_test_port_index q = test_port_index p then num_modifiersL2 p
      else if low_dest_port_count (register_peer p q) > 0 \<and> high_dest_port_count (register_peer p q) > 0
           then 2 else 1)"
  by (simp add: register_peer_def Let_def)

lemma register_peer_peers:
  "peers (register_peer p q) =
     (if port_ref q \<in> set (peers p) then peers p else peers p @ [port_ref q])"
  by (simp add: register_peer_def Let_def)

lemma foldl_dest_port_count:
  "dest_port_count (foldl register_peer p qs) =
     dest_port_count p + int (length (filter (\<lambda>q. properties_test_port_index q \<noteq> test_port_index p) qs))"
  by (induction qs rule: rev_induct) (simp_all add: register_peer_dest_port_count)

lemma foldl_low:
  "low_dest_port_count (foldl register_peer p qs) =
     low_dest_port_count p + int (length (filter (\<lambda>q. properties_test_port_index q < test_port_index p) qs))"
  by (induction qs rule: rev_induct) (simp_all add: register_peer_low)

lemma foldl_high:
  "high_dest_port_count (foldl register_peer p qs) =
     high_dest_port_count p + int (length (filter (\<lambda>q. properties_test_port_index q > test_port_index p) qs))"
  by (induction qs rule: rev_induct) (simp_all add: register_peer_high)

lemma foldl_num_modifiersL2:
  "num_modifiersL2 (foldl register_peer p qs) =
     (if filter (\<lambda>q. properties_test_port_index q \<noteq> test_port_index p) qs = [] then num_modifiersL2 p
      else if low_dest_port_count (foldl register_peer p qs) > 0 \<and>
              high_dest_port_count (foldl register_peer p qs) > 0 then 2 else 1)"
proof (induction qs rule: rev_induct)
  case Nil
  show ?case by simp
next
  case (snoc q qs)
  show ?case
  proof (cases "properties_test_port_index q = test_port_index p")
    case True
    then show ?thesis using snoc
      by (simp add: register_peer_num_modifiersL2 register_peer_low register_peer_high)
  next
    case False
    then show ?thesis
      by (simp add: register_peer_num_modifiersL2)
  qed
qed

lemma Min_insert_list: "xs \<noteq> [] \<Longrightarrow> Min (insert (x::int) (set xs)) = min x (Min (set xs))"
  by (simp add: Min_insert)

lemma Max_insert_list: "xs \<noteq> [] \<Longrightarrow> Max (insert (x::int) (set xs)) = max x (Max (set xs))"
  by (simp add: Max_insert)

lemma Min_ne: "xs \<noteq> [] \<Longrightarrow> \<forall>x\<in>set xs. x \<noteq> (c::int) \<Longrightarrow> Min (set xs) \<noteq> c"
  by (metis List.finite_set Min_in set_empty)

lemma Max_ne: "xs \<noteq> [] \<Longrightarrow> \<forall>x\<in>set xs. x \<noteq> (c::int) \<Longrightarrow> Max (set xs) \<noteq> c"
  by (metis List.finite_set Max_in set_empty)

lemma foldl_lowest:
  assumes "\<forall>q\<in>set qs. properties_test_port_index q \<noteq> - 1"
  shows "lowest_dest_port_index (foldl register_peer p qs) =
     (let xs = filter (\<lambda>i. i \<noteq> test_port_index p) (map properties_test_port_index qs) in
      if xs = [] then lowest_dest_port_index p
      else if lowest_dest_port_index p = - 1 then Min (set xs)
      else min (lowest_dest_port_index p) (Min (set xs)))"
  using assms
proof (induction qs rule: rev_induct)
  case Nil
  show ?case by simp
next
  case (snoc q qs)
  let ?xs = "filter (\<lambda>i. i \<noteq> test_port_index p) (map properties_test_port_index qs)"
  let ?x = "properties_test_port_index q"
  let ?s = "foldl register_peer p qs"
  have IH: "lowest_dest_port_index ?s =
     (if ?xs = [] then lowest_dest_port_index p
      else if lowest_dest_port_index p = - 1 then Min (set ?xs)
      else min (lowest_dest_port_index p) (Min (set ?xs)))"
    using snoc by (simp add: Let_def)
  have ne: "\<forall>x\<in>set ?xs. x \<noteq> - 1" using snoc.prems by auto
  have x: "?x \<noteq> - 1" using snoc.prems by simp
  show ?case
  proof (cases "?x = test_port_index p")
    case True
    then show ?thesis using IH by (simp add: register_peer_lowest Let_def)
  next
    case False
    show ?thesis
    proof (cases "?xs = []")
      case True
      then show ?thesis using IH False x
        by (simp add: register_peer_lowest Let_def min_def)
    next
      case ne2: False
      have m: "Min (set ?xs) \<noteq> - 1" using Min_ne[OF ne2 ne] .
      have mi: "Min (insert ?x (set ?xs)) = min ?x (Min (set ?xs))"
        using ne2 by (rule Min_insert_list)
      have s: "lowest_dest_port_index (register_peer ?s q) =
           (if lowest_dest_port_index ?s = - 1 then ?x else min (lowest_dest_port_index ?s) ?x)"
        using False by (simp add: register_peer_lowest)
      show ?thesis
      proof (cases "lowest_dest_port_index p = - 1")
        case True
        then have "lowest_dest_port_index ?s = Min (set ?xs)" using IH ne2 by simp
        then show ?thesis using s m mi True False ne2
          by (simp add: Let_def min.commute)
      next
        case l: False
        then have e: "lowest_dest_port_index ?s = min (lowest_dest_port_index p) (Min (set ?xs))"
          using IH ne2 by simp
        then have "lowest_dest_port_index ?s \<noteq> - 1" using l m by (simp add: min_def)
        then show ?thesis using s e mi l False ne2
          by (simp add: Let_def min.commute min.left_commute)
      qed
    qed
  qed
qed


lemma foldl_highest:
  assumes "\<forall>q\<in>set qs. properties_test_port_index q \<noteq> - 1"
  shows "highest_dest_port_index (foldl register_peer p qs) =
     (let xs = filter (\<lambda>i. i \<noteq> test_port_index p) (map properties_test_port_index qs) in
      if xs = [] then highest_dest_port_index p
      else if highest_dest_port_index p = - 1 then Max (set xs)
      else max (highest_dest_port_index p) (Max (set xs)))"
  using assms
proof (induction qs rule: rev_induct)
  case Nil
  show ?case by simp
next
  case (snoc q qs)
  let ?xs = "filter (\<lambda>i. i \<noteq> test_port_index p) (map properties_test_port_index qs)"
  let ?x = "properties_test_port_index q"
  let ?s = "foldl register_peer p qs"
  have IH: "highest_dest_port_index ?s =
     (if ?xs = [] then highest_dest_port_index p
      else if highest_dest_port_index p = - 1 then Max (set ?xs)
      else max (highest_dest_port_index p) (Max (set ?xs)))"
    using snoc by (simp add: Let_def)
  have ne: "\<forall>x\<in>set ?xs. x \<noteq> - 1" using snoc.prems by auto
  have x: "?x \<noteq> - 1" using snoc.prems by simp
  show ?case
  proof (cases "?x = test_port_index p")
    case True
    then show ?thesis using IH by (simp add: register_peer_highest Let_def)
  next
    case False
    show ?thesis
    proof (cases "?xs = []")
      case True
      then show ?thesis using IH False x
        by (simp add: register_peer_highest Let_def max_def)
    next
      case ne2: False
      have m: "Max (set ?xs) \<noteq> - 1" using Max_ne[OF ne2 ne] .
      have mi: "Max (insert ?x (set ?xs)) = max ?x (Max (set ?xs))"
        using ne2 by (rule Max_insert_list)
      have s: "highest_dest_port_index (register_peer ?s q) =
           (if highest_dest_port_index ?s = - 1 then ?x else max (highest_dest_port_index ?s) ?x)"
        using False by (simp add: register_peer_highest)
      show ?thesis
      proof (cases "highest_dest_port_index p = - 1")
        case True
        then have "highest_dest_port_index ?s = Max (set ?xs)" using IH ne2 by simp
        then show ?thesis using s m mi True False ne2
          by (simp add: Let_def max.commute)
      next
        case l: False
        then have e: "highest_dest_port_index ?s = max (highest_dest_port_index p) (Max (set ?xs))"
          using IH ne2 by simp
        then have "highest_dest_port_index ?s \<noteq> - 1" using l m by (simp add: max_def)
        then show ?thesis using s e mi l False ne2
          by (simp add: Let_def max.commute max.left_commute)
      qed
    qed
  qed
qed

lemma length_filter_mset_cong:
  "mset xs = mset ys \<Longrightarrow> length (filter P xs) = length (filter P ys)"
  by (metis mset_filter size_mset)

lemma filter_map_mset_cong:
  "mset xs = mset ys \<Longrightarrow> set (filter P (map f xs)) = set (filter P (map f ys))"
  by (metis mset_eq_setD set_filter set_map)

lemma filter_map_nil_cong:
  "mset xs = mset ys \<Longrightarrow> (filter P (map f xs) = []) = (filter P (map f ys) = [])"
  by (metis filter_map_mset_cong set_empty)

lemma filter_nil_cong:
  "mset xs = mset ys \<Longrightarrow> (filter P xs = []) = (filter P ys = [])"
  by (metis length_filter_mset_cong length_0_conv)

lemma foldl_register_peer_aggregates_perm:
  assumes "mset qs = mset qs'"
    and "\<forall>q\<in>set qs. properties_test_port_index q \<noteq> - 1"
  shows "aggregates (foldl register_peer p qs) = aggregates (foldl register_peer p qs')"
proof -
  have ne': "\<forall>q\<in>set qs'. properties_test_port_index q \<noteq> - 1"
    using assms by (metis mset_eq_setD)
  have 1: "dest_port_count (foldl register_peer p qs) = dest_port_count (foldl register_peer p qs')"
    unfolding foldl_dest_port_count using length_filter_mset_cong[OF assms(1)] by simp
  have 2: "low_dest_port_count (foldl register_peer p qs) = low_dest_port_count (foldl register_peer p qs')"
    unfolding foldl_low using length_filter_mset_cong[OF assms(1)] by simp
  have 3: "high_dest_port_count (foldl register_peer p qs) = high_dest_port_count (foldl register_peer p qs')"
    unfolding foldl_high using length_filter_mset_cong[OF assms(1)] by simp
  define xs where "xs = filter (\<lambda>i. i \<noteq> test_port_index p) (map properties_test_port_index qs)"
  define ys where "ys = filter (\<lambda>i. i \<noteq> test_port_index p) (map properties_test_port_index qs')"
  have s: "set xs = set ys"
    unfolding xs_def ys_def by (rule filter_map_mset_cong[OF assms(1)])
  have e: "(xs = []) = (ys = [])"
    using s by (metis set_empty)
  have L1: "lowest_dest_port_index (foldl register_peer p qs) =
      (if xs = [] then lowest_dest_port_index p
       else if lowest_dest_port_index p = - 1 then Min (set xs)
       else min (lowest_dest_port_index p) (Min (set xs)))"
    unfolding xs_def by (rule foldl_lowest[OF assms(2), unfolded Let_def])
  have L2: "lowest_dest_port_index (foldl register_peer p qs') =
      (if ys = [] then lowest_dest_port_index p
       else if lowest_dest_port_index p = - 1 then Min (set ys)
       else min (lowest_dest_port_index p) (Min (set ys)))"
    unfolding ys_def by (rule foldl_lowest[OF ne', unfolded Let_def])
  have 4: "lowest_dest_port_index (foldl register_peer p qs) = lowest_dest_port_index (foldl register_peer p qs')"
    unfolding L1 L2 using s e by simp
  have H1: "highest_dest_port_index (foldl register_peer p qs) =
      (if xs = [] then highest_dest_port_index p
       else if highest_dest_port_index p = - 1 then Max (set xs)
       else max (highest_dest_port_index p) (Max (set xs)))"
    unfolding xs_def by (rule foldl_highest[OF assms(2), unfolded Let_def])
  have H2: "highest_dest_port_index (foldl register_peer p qs') =
      (if ys = [] then highest_dest_port_index p
       else if highest_dest_port_index p = - 1 then Max (set ys)
       else max (highest_dest_port_index p) (Max (set ys)))"
    unfolding ys_def by (rule foldl_highest[OF ne', unfolded Let_def])
  have 5: "highest_dest_port_index (foldl register_peer p qs) = highest_dest_port_index (foldl register_peer p qs')"
    unfolding H1 H2 using s e by simp
  have 6: "num_modifiersL2 (foldl register_peer p qs) = num_modifiersL2 (foldl register_peer p qs')"
    using foldl_num_modifiersL2[of p qs] foldl_num_modifiersL2[of p qs'] 2 3 filter_nil_cong[OF assms(1)]
    by simp
  show ?thesis using 1 2 3 4 5 6 by (simp add: aggregates_def)
qed

text \<open>
  Claim C6, as the code has it. \<open>get_modifier_range(stream_id)\<close> returns: for stream 0 with
  two L2 modifiers the pair (lowest peer index, own index - 1); for stream 0 with another
  number of modifiers and a positive destination count, (lowest, highest); for stream 0 with
  another number of modifiers and no positive destination count, (own, own); for every
  other stream (own + 1, highest). On every state that \<open>register_peer\<close> builds from a fresh
  \<open>Properties\<close>, a destination count of 0 alone gives (own, own) for stream 0. On a port
  with index 3, two modifiers, lowest 1 and highest 9, stream 0 gets (1, 2) and stream 1
  gets (4, 9).
\<close>

theorem get_modifier_range_cases:
  "(stream_id = 0 \<and> num_modifiersL2 p = 2 \<longrightarrow>
      get_modifier_range p stream_id = (lowest_dest_port_index p, test_port_index p - 1)) \<and>
   (stream_id = 0 \<and> num_modifiersL2 p \<noteq> 2 \<and> dest_port_count p > 0 \<longrightarrow>
      get_modifier_range p stream_id = (lowest_dest_port_index p, highest_dest_port_index p)) \<and>
   (stream_id = 0 \<and> num_modifiersL2 p \<noteq> 2 \<and> dest_port_count p \<le> 0 \<longrightarrow>
      get_modifier_range p stream_id = (test_port_index p, test_port_index p)) \<and>
   (stream_id \<noteq> 0 \<longrightarrow>
      get_modifier_range p stream_id = (test_port_index p + 1, highest_dest_port_index p)) \<and>
   (dest_port_count (foldl register_peer (Properties_default\<lparr>test_port_index := i\<rparr>) qs) = 0 \<longrightarrow>
      get_modifier_range (foldl register_peer (Properties_default\<lparr>test_port_index := i\<rparr>) qs) 0 = (i, i)) \<and>
   (test_port_index p = 3 \<and> num_modifiersL2 p = 2 \<and> lowest_dest_port_index p = 1 \<and>
    highest_dest_port_index p = 9 \<longrightarrow>
      get_modifier_range p 0 = (1, 2) \<and> get_modifier_range p 1 = (4, 9))"
proof -
  let ?b = "foldl register_peer (Properties_default\<lparr>test_port_index := i\<rparr>) qs"
  have built: "dest_port_count ?b = 0 \<longrightarrow> get_modifier_range ?b 0 = (i, i)"
  proof
    assume z: "dest_port_count ?b = 0"
    have "filter (\<lambda>q. properties_test_port_index q \<noteq> i) qs = []"
      using z foldl_dest_port_count[of "Properties_default\<lparr>test_port_index := i\<rparr>" qs]
      by (simp add: Properties_default_def)
    then have "num_modifiersL2 ?b = 1"
      using foldl_num_modifiersL2[of "Properties_default\<lparr>test_port_index := i\<rparr>" qs]
      by (simp add: Properties_default_def)
    then show "get_modifier_range ?b 0 = (i, i)"
      using z by (simp add: get_modifier_range_def)
  qed
  have rest: "(stream_id = 0 \<and> num_modifiersL2 p = 2 \<longrightarrow>
      get_modifier_range p stream_id = (lowest_dest_port_index p, test_port_index p - 1)) \<and>
   (stream_id = 0 \<and> num_modifiersL2 p \<noteq> 2 \<and> dest_port_count p > 0 \<longrightarrow>
      get_modifier_range p stream_id = (lowest_dest_port_index p, highest_dest_port_index p)) \<and>
   (stream_id = 0 \<and> num_modifiersL2 p \<noteq> 2 \<and> dest_port_count p \<le> 0 \<longrightarrow>
      get_modifier_range p stream_id = (test_port_index p, test_port_index p)) \<and>
   (stream_id \<noteq> 0 \<longrightarrow>
      get_modifier_range p stream_id = (test_port_index p + 1, highest_dest_port_index p))"
    by (simp add: get_modifier_range_def)
  have ex: "test_port_index p = 3 \<and> num_modifiersL2 p = 2 \<and> lowest_dest_port_index p = 1 \<and>
    highest_dest_port_index p = 9 \<longrightarrow>
      get_modifier_range p 0 = (1, 2) \<and> get_modifier_range p 1 = (4, 9)"
    by (simp add: get_modifier_range_def)
  show ?thesis using built rest ex by blast
qed

text \<open>The four branches at concrete states of a port with index 3.\<close>

theorem get_modifier_range_cases_witness:
  "get_modifier_range \<lparr>num_modifiersL2 = 2, dest_port_count = 3, test_port_index = 3,
       high_dest_port_count = 2, low_dest_port_count = 1, lowest_dest_port_index = 1,
       highest_dest_port_index = 9, peers = [10, 11, 12]\<rparr> 0 = (1, 2)
   \<and> get_modifier_range \<lparr>num_modifiersL2 = 2, dest_port_count = 3, test_port_index = 3,
       high_dest_port_count = 2, low_dest_port_count = 1, lowest_dest_port_index = 1,
       highest_dest_port_index = 9, peers = [10, 11, 12]\<rparr> 1 = (4, 9)
   \<and> get_modifier_range \<lparr>num_modifiersL2 = 1, dest_port_count = 2, test_port_index = 3,
       high_dest_port_count = 2, low_dest_port_count = 0, lowest_dest_port_index = 5,
       highest_dest_port_index = 9, peers = [10, 11]\<rparr> 0 = (5, 9)
   \<and> get_modifier_range (foldl register_peer (Properties_default\<lparr>test_port_index := 3\<rparr>)
         [\<lparr>port_ref = 10, properties_test_port_index = 3\<rparr>]) 0 = (3, 3)"
  using get_modifier_range_cases [of 0 "\<lparr>num_modifiersL2 = 2, dest_port_count = 3, test_port_index = 3,
       high_dest_port_count = 2, low_dest_port_count = 1, lowest_dest_port_index = 1,
       highest_dest_port_index = 9, peers = [10, 11, 12]\<rparr>" 3 "[]"]
    get_modifier_range_cases [of 1 "\<lparr>num_modifiersL2 = 2, dest_port_count = 3, test_port_index = 3,
       high_dest_port_count = 2, low_dest_port_count = 1, lowest_dest_port_index = 1,
       highest_dest_port_index = 9, peers = [10, 11, 12]\<rparr>" 3 "[]"]
    get_modifier_range_cases [of 0 "\<lparr>num_modifiersL2 = 1, dest_port_count = 2, test_port_index = 3,
       high_dest_port_count = 2, low_dest_port_count = 0, lowest_dest_port_index = 5,
       highest_dest_port_index = 9, peers = [10, 11]\<rparr>" 3
       "[\<lparr>port_ref = 10, properties_test_port_index = 3\<rparr>]"]
  by (simp add: register_peer_def Properties_default_def)

text \<open>
  A \<open>Properties\<close> constructed with two modifiers and no destination, its other fields at
  their defaults: for stream 0 the branch of the two modifiers is taken and the range is
  (-1, -1), not (own, own) = (0, 0).
\<close>

theorem get_modifier_range_cases_counterexample:
  "dest_port_count \<lparr>num_modifiersL2 = 2, dest_port_count = 0, test_port_index = 0,
       high_dest_port_count = 0, low_dest_port_count = 0, lowest_dest_port_index = - 1,
       highest_dest_port_index = - 1, peers = []\<rparr> = 0
   \<and> get_modifier_range \<lparr>num_modifiersL2 = 2, dest_port_count = 0, test_port_index = 0,
       high_dest_port_count = 0, low_dest_port_count = 0, lowest_dest_port_index = - 1,
       highest_dest_port_index = - 1, peers = []\<rparr> 0 = (- 1, - 1)
   \<and> get_modifier_range \<lparr>num_modifiersL2 = 2, dest_port_count = 0, test_port_index = 0,
       high_dest_port_count = 0, low_dest_port_count = 0, lowest_dest_port_index = - 1,
       highest_dest_port_index = - 1, peers = []\<rparr> 0
     \<noteq> (test_port_index \<lparr>num_modifiersL2 = 2, dest_port_count = 0, test_port_index = 0,
       high_dest_port_count = 0, low_dest_port_count = 0, lowest_dest_port_index = - 1,
       highest_dest_port_index = - 1, peers = []\<rparr>,
        test_port_index \<lparr>num_modifiersL2 = 2, dest_port_count = 0, test_port_index = 0,
       high_dest_port_count = 0, low_dest_port_count = 0, lowest_dest_port_index = - 1,
       highest_dest_port_index = - 1, peers = []\<rparr>)"
  by (simp add: get_modifier_range_def)

text \<open>
  Claim C4, as the code has it. Registering a peer that is already in the peer list leaves
  the peer list unchanged, and leaves the whole state unchanged when the peer's index equals
  the port's own index. A peer whose index equals the port's own index is recorded in the
  peer list (once) and changes no aggregate.
\<close>

theorem register_peer_duplicate:
  "(port_ref q \<in> set (peers p) \<longrightarrow> peers (register_peer p q) = peers p) \<and>
   (port_ref q \<in> set (peers p) \<and> properties_test_port_index q = test_port_index p \<longrightarrow>
      register_peer p q = p) \<and>
   (properties_test_port_index q = test_port_index p \<longrightarrow>
      peers (register_peer p q) =
        (if port_ref q \<in> set (peers p) then peers p else peers p @ [port_ref q]) \<and>
      aggregates (register_peer p q) = aggregates p \<and>
      test_port_index (register_peer p q) = test_port_index p)"
  by (simp add: register_peer_def aggregates_def Let_def)

text \<open>A self-indexed peer registered twice, registered first, and a duplicate of a far peer.\<close>

theorem register_peer_duplicate_witness:
  "register_peer \<lparr>num_modifiersL2 = 1, dest_port_count = 0, test_port_index = 3,
       high_dest_port_count = 0, low_dest_port_count = 0, lowest_dest_port_index = - 1,
       highest_dest_port_index = - 1, peers = [7]\<rparr> \<lparr>port_ref = 7, properties_test_port_index = 3\<rparr>
     = \<lparr>num_modifiersL2 = 1, dest_port_count = 0, test_port_index = 3,
       high_dest_port_count = 0, low_dest_port_count = 0, lowest_dest_port_index = - 1,
       highest_dest_port_index = - 1, peers = [7]\<rparr>
   \<and> peers (register_peer \<lparr>num_modifiersL2 = 1, dest_port_count = 0, test_port_index = 3,
       high_dest_port_count = 0, low_dest_port_count = 0, lowest_dest_port_index = - 1,
       highest_dest_port_index = - 1, peers = []\<rparr> \<lparr>port_ref = 7, properties_test_port_index = 3\<rparr>) = [7]
   \<and> peers (register_peer \<lparr>num_modifiersL2 = 1, dest_port_count = 1, test_port_index = 3,
       high_dest_port_count = 1, low_dest_port_count = 0, lowest_dest_port_index = 5,
       highest_dest_port_index = 5, peers = [8]\<rparr> \<lparr>port_ref = 8, properties_test_port_index = 5\<rparr>) = [8]"
  using register_peer_duplicate [of "\<lparr>port_ref = 7, properties_test_port_index = 3\<rparr>"
      "\<lparr>num_modifiersL2 = 1, dest_port_count = 0, test_port_index = 3,
       high_dest_port_count = 0, low_dest_port_count = 0, lowest_dest_port_index = - 1,
       highest_dest_port_index = - 1, peers = [7]\<rparr>"]
    register_peer_duplicate [of "\<lparr>port_ref = 7, properties_test_port_index = 3\<rparr>"
      "\<lparr>num_modifiersL2 = 1, dest_port_count = 0, test_port_index = 3,
       high_dest_port_count = 0, low_dest_port_count = 0, lowest_dest_port_index = - 1,
       highest_dest_port_index = - 1, peers = []\<rparr>"]
    register_peer_duplicate [of "\<lparr>port_ref = 8, properties_test_port_index = 5\<rparr>"
      "\<lparr>num_modifiersL2 = 1, dest_port_count = 1, test_port_index = 3,
       high_dest_port_count = 1, low_dest_port_count = 0, lowest_dest_port_index = 5,
       highest_dest_port_index = 5, peers = [8]\<rparr>"]
  by simp

text \<open>
  The guard \<open>if peer not in self.peers\<close> covers the append only: on a port with index 3 that
  has already registered the peer with index 5, registering that peer again counts it again.
\<close>

theorem register_peer_duplicate_counterexample:
  "port_ref \<lparr>port_ref = 8, properties_test_port_index = 5\<rparr>
     \<in> set (peers \<lparr>num_modifiersL2 = 1, dest_port_count = 1, test_port_index = 3,
       high_dest_port_count = 1, low_dest_port_count = 0, lowest_dest_port_index = 5,
       highest_dest_port_index = 5, peers = [8]\<rparr>)
   \<and> register_peer \<lparr>num_modifiersL2 = 1, dest_port_count = 1, test_port_index = 3,
       high_dest_port_count = 1, low_dest_port_count = 0, lowest_dest_port_index = 5,
       highest_dest_port_index = 5, peers = [8]\<rparr> \<lparr>port_ref = 8, properties_test_port_index = 5\<rparr>
     = \<lparr>num_modifiersL2 = 1, dest_port_count = 2, test_port_index = 3,
       high_dest_port_count = 2, low_dest_port_count = 0, lowest_dest_port_index = 5,
       highest_dest_port_index = 5, peers = [8]\<rparr>
   \<and> register_peer \<lparr>num_modifiersL2 = 1, dest_port_count = 1, test_port_index = 3,
       high_dest_port_count = 1, low_dest_port_count = 0, lowest_dest_port_index = 5,
       highest_dest_port_index = 5, peers = [8]\<rparr> \<lparr>port_ref = 8, properties_test_port_index = 5\<rparr>
     \<noteq> \<lparr>num_modifiersL2 = 1, dest_port_count = 1, test_port_index = 3,
       high_dest_port_count = 1, low_dest_port_count = 0, lowest_dest_port_index = 5,
       highest_dest_port_index = 5, peers = [8]\<rparr>"
  by (simp add: register_peer_def)

lemma length_filter_index:
  "length (filter (\<lambda>q. P (properties_test_port_index q)) rs) =
     size (filter_mset P (image_mset properties_test_port_index (mset rs)))"
  by (induction rs) simp_all

lemma foldl_register_peer_5_1_9:
  assumes m: "mset (map properties_test_port_index rs) = {#5, 1, 9#}"
  shows "aggregates (foldl register_peer (Properties_default\<lparr>test_port_index := 3\<rparr>) rs) = (3, 1, 2, 1, 9, 2)"
proof -
  let ?p = "Properties_default\<lparr>test_port_index := 3\<rparr>"
  let ?s = "foldl register_peer ?p rs"
  define xs where "xs = filter (\<lambda>i. i \<noteq> test_port_index ?p) (map properties_test_port_index rs)"
  have im: "image_mset properties_test_port_index (mset rs) = {#5, 1, 9#}"
    using m by simp
  have "set_mset (mset (map properties_test_port_index rs)) = set_mset {#5, 1, 9::int#}"
    using m by simp
  then have st: "set (map properties_test_port_index rs) = {5, 1, 9}"
    by simp
  have ne: "\<forall>q\<in>set rs. properties_test_port_index q \<noteq> - 1"
  proof
    fix q
    assume "q \<in> set rs"
    then have "properties_test_port_index q \<in> set (map properties_test_port_index rs)"
      by simp
    then have "properties_test_port_index q \<in> {5, 1, 9}"
      unfolding st .
    then show "properties_test_port_index q \<noteq> - 1"
      by auto
  qed
  have sx: "set xs = {5, 1, 9}"
    unfolding xs_def using st by (auto simp: Properties_default_def)
  then have nx: "xs \<noteq> []" by auto
  have c1: "dest_port_count ?s = 3"
    using foldl_dest_port_count[of ?p rs] length_filter_index[of "\<lambda>x. x \<noteq> 3" rs] im
    by (simp add: Properties_default_def)
  have c2: "low_dest_port_count ?s = 1"
    using foldl_low[of ?p rs] length_filter_index[of "\<lambda>x. x < 3" rs] im
    by (simp add: Properties_default_def)
  have c3: "high_dest_port_count ?s = 2"
    using foldl_high[of ?p rs] length_filter_index[of "\<lambda>x. 3 < x" rs] im
    by (simp add: Properties_default_def)
  have "lowest_dest_port_index ?s =
      (if xs = [] then lowest_dest_port_index ?p
       else if lowest_dest_port_index ?p = - 1 then Min (set xs)
       else min (lowest_dest_port_index ?p) (Min (set xs)))"
    unfolding xs_def by (rule foldl_lowest[OF ne, unfolded Let_def])
  then have c4: "lowest_dest_port_index ?s = 1"
    using nx sx by (simp add: Properties_default_def)
  have "highest_dest_port_index ?s =
      (if xs = [] then highest_dest_port_index ?p
       else if highest_dest_port_index ?p = - 1 then Max (set xs)
       else max (highest_dest_port_index ?p) (Max (set xs)))"
    unfolding xs_def by (rule foldl_highest[OF ne, unfolded Let_def])
  then have c5: "highest_dest_port_index ?s = 9"
    using nx sx by (simp add: Properties_default_def)
  have "filter (\<lambda>q. properties_test_port_index q \<noteq> test_port_index ?p) rs \<noteq> []"
    using c1 foldl_dest_port_count[of ?p rs] by (auto simp: Properties_default_def)
  then have c6: "num_modifiersL2 ?s = 2"
    using foldl_num_modifiersL2[of ?p rs] c2 c3 by simp
  show ?thesis using c1 c2 c3 c4 c5 c6 by (simp add: aggregates_def)
qed

text \<open>
  Claim C7, as the code has it. When no registered peer has the index -1, which the code
  keeps as the mark of an unset lowest or highest index, registering the same peers in any
  order on the same \<open>Properties\<close> gives the same six aggregates. Peers with the indices
  5, 1 and 9, in any order, on a fresh port with index 3 give count 3, low count 1,
  high count 2, lowest 1, highest 9 and two modifiers.
\<close>

theorem register_peer_order_independent:
  "(mset qs = mset qs' \<and> (\<forall>q\<in>set qs. properties_test_port_index q \<noteq> - 1) \<longrightarrow>
      aggregates (foldl register_peer p qs) = aggregates (foldl register_peer p qs')) \<and>
   (mset (map properties_test_port_index rs) = {#5, 1, 9#} \<longrightarrow>
      aggregates (foldl register_peer (Properties_default\<lparr>test_port_index := 3\<rparr>) rs)
        = (3, 1, 2, 1, 9, 2))"
  using foldl_register_peer_aggregates_perm[of qs qs' p] foldl_register_peer_5_1_9[of rs]
  by blast

text \<open>Two of the orders of the peers 5, 1, 9 on a port with index 3.\<close>

theorem register_peer_order_independent_witness:
  "aggregates (foldl register_peer (Properties_default\<lparr>test_port_index := 3\<rparr>)
      [\<lparr>port_ref = 10, properties_test_port_index = 5\<rparr>,
       \<lparr>port_ref = 11, properties_test_port_index = 1\<rparr>,
       \<lparr>port_ref = 12, properties_test_port_index = 9\<rparr>])
   = aggregates (foldl register_peer (Properties_default\<lparr>test_port_index := 3\<rparr>)
      [\<lparr>port_ref = 12, properties_test_port_index = 9\<rparr>,
       \<lparr>port_ref = 10, properties_test_port_index = 5\<rparr>,
       \<lparr>port_ref = 11, properties_test_port_index = 1\<rparr>])
   \<and> aggregates (foldl register_peer (Properties_default\<lparr>test_port_index := 3\<rparr>)
      [\<lparr>port_ref = 12, properties_test_port_index = 9\<rparr>,
       \<lparr>port_ref = 10, properties_test_port_index = 5\<rparr>,
       \<lparr>port_ref = 11, properties_test_port_index = 1\<rparr>]) = (3, 1, 2, 1, 9, 2)"
  using register_peer_order_independent [of
      "[\<lparr>port_ref = 10, properties_test_port_index = 5\<rparr>,
        \<lparr>port_ref = 11, properties_test_port_index = 1\<rparr>,
        \<lparr>port_ref = 12, properties_test_port_index = 9\<rparr>]"
      "[\<lparr>port_ref = 12, properties_test_port_index = 9\<rparr>,
        \<lparr>port_ref = 10, properties_test_port_index = 5\<rparr>,
        \<lparr>port_ref = 11, properties_test_port_index = 1\<rparr>]"
      "Properties_default\<lparr>test_port_index := 3\<rparr>"
      "[\<lparr>port_ref = 12, properties_test_port_index = 9\<rparr>,
        \<lparr>port_ref = 10, properties_test_port_index = 5\<rparr>,
        \<lparr>port_ref = 11, properties_test_port_index = 1\<rparr>]"]
  by (simp add: add_mset_commute)

text \<open>
  Two distinct peers with the indices -1 and 5 on a port with index 3: registered as -1, 5
  the lowest index ends at 5 (the second call takes the stored -1 for unset); registered as
  5, -1 it ends at -1.
\<close>

theorem register_peer_order_independent_counterexample:
  "lowest_dest_port_index (foldl register_peer (Properties_default\<lparr>test_port_index := 3\<rparr>)
      [\<lparr>port_ref = 10, properties_test_port_index = - 1\<rparr>,
       \<lparr>port_ref = 11, properties_test_port_index = 5\<rparr>]) = 5
   \<and> lowest_dest_port_index (foldl register_peer (Properties_default\<lparr>test_port_index := 3\<rparr>)
      [\<lparr>port_ref = 11, properties_test_port_index = 5\<rparr>,
       \<lparr>port_ref = 10, properties_test_port_index = - 1\<rparr>]) = - 1"
  by (simp add: register_peer_def Properties_default_def)

section \<open>Properties of the configuration validation\<close>

text \<open>
  Claim C5. The role assignment is meant to leave a looped port alone and to clear, outside
  a mesh, \<open>is_rx\<close> or \<open>is_tx\<close> by direction and group. With a test configuration present,
  \<open>set_ports_rx_tx_type\<close> raises \<open>AttributeError\<close> at the first port of the dictionary,
  at the read of \<open>port.port_config_slot\<close>, whatever the direction, the topology and the
  port; no role flag is assigned. So it does on an East port and its West peer under
  direction east-to-west.
\<close>

theorem set_ports_rx_tx_type_attribute_error:
  "set_ports_rx_tx_type (Some tc) ((config_index, port) # todo) = Inl AttributeError
   \<and> set_ports_rx_tx_type (Some \<lparr>direction = EAST_TO_WEST, topology = PAIRS\<rparr>)
        [(''p0'', \<lparr>port_slot = ''P-0-0-0'', peer_config_slot = ''p1'', port_group = EAST,
                   private_port_config_slot = [], private_is_tx = True, private_is_rx = True\<rparr>),
         (''p1'', \<lparr>port_slot = ''P-0-0-1'', peer_config_slot = ''p0'', port_group = WEST,
                   private_port_config_slot = [], private_is_tx = True, private_is_rx = True\<rparr>)]
       = Inl AttributeError"
  by (simp add: set_ports_rx_tx_type_def set_port_rx_tx_type_def get_port_config_slot_def)

text \<open>
  Claim C8. Under a pair topology the peer checks are meant to pass two ports that name
  each other and to fail a non-symmetric peer with \<open>PortPeerInconsistent\<close>. Under a pair
  topology \<open>check_port_groups_and_peers\<close> raises \<open>AttributeError\<close> at the first port of the
  dictionary: \<open>count_port_group\<close> reads \<open>port_config.port_config_slot\<close> before any peer is
  checked. So it does on two ports that name each other. \<open>check_port_peer\<close> alone raises
  \<open>AttributeError\<close> too as soon as the named peer exists, symmetric or not.
\<close>

theorem check_port_groups_and_peers_attribute_error:
  "check_port_groups_and_peers (Some (tc\<lparr>topology := PAIRS\<rparr>)) ((slot, port_config) # todo)
     = Inl AttributeError
   \<and> check_port_groups_and_peers (Some \<lparr>direction = EAST_TO_WEST, topology = PAIRS\<rparr>)
        [(''A'', \<lparr>port_slot = ''P-0-0-0'', peer_config_slot = ''B'', port_group = EAST,
                  private_port_config_slot = ''A'', private_is_tx = True, private_is_rx = True\<rparr>),
         (''B'', \<lparr>port_slot = ''P-0-0-1'', peer_config_slot = ''A'', port_group = WEST,
                  private_port_config_slot = ''B'', private_is_tx = True, private_is_rx = True\<rparr>)]
       = Inl AttributeError
   \<and> check_port_peer
        \<lparr>port_slot = ''P-0-0-0'', peer_config_slot = ''B'', port_group = EAST,
         private_port_config_slot = ''A'', private_is_tx = True, private_is_rx = True\<rparr>
        [(''A'', \<lparr>port_slot = ''P-0-0-0'', peer_config_slot = ''B'', port_group = EAST,
                  private_port_config_slot = ''A'', private_is_tx = True, private_is_rx = True\<rparr>),
         (''B'', \<lparr>port_slot = ''P-0-0-1'', peer_config_slot = ''A'', port_group = WEST,
                  private_port_config_slot = ''B'', private_is_tx = True, private_is_rx = True\<rparr>)]
       = Inl AttributeError"
  by (simp add: check_port_groups_and_peers_def count_port_group_def check_port_peer_def
      get_port_config_slot_def is_mesh_topology_def is_pair_topology_def)

section \<open>Properties of the header engine\<close>

subsection \<open>Arithmetic of the checksum loop\<close>









lemma word_bounds:
  assumes "0 \<le> (b0::int)" "b0 < 256" "0 \<le> b1" "b1 < 256"
  shows "0 \<le> b0 * 256 + b1" "b0 * 256 + b1 \<le> 65535"
  using assms by linarith+























subsection \<open>Value generators, fields and segments\<close>

text \<open>
  Claim C1. A \<open>ValueRange\<close> with action increment is meant to count from \<open>start\<close> in steps
  and wrap after \<open>stop\<close>. The method compares \<open>self.action\<close>, a member of \<open>EnumActions\<close>,
  with members of \<open>ModifierActionOption\<close>; both tests are false for every action, so every
  call returns the draw of \<open>randint\<close> between the smaller and the larger of \<open>start\<close> and
  \<open>stop\<close>, and adds 1 to the counter. With start 0, step 1, stop 2 and a generator that
  draws the upper bound, the first two calls return 2 and 2.
\<close>

theorem get_current_value_increment:
  "get_current_value randint g vr =
     (fst (randint g (min (start_value vr) (stop_value vr)) (max (start_value vr) (stop_value vr))),
      snd (randint g (min (start_value vr) (stop_value vr)) (max (start_value vr) (stop_value vr))),
      vr\<lparr>current_count := current_count vr + 1\<rparr>)
   \<and> get_current_value (\<lambda>g lo hi. (hi, g)) ()
        \<lparr>start_value = 0, step_value = 1, stop_value = 2, action = INCR,
         restart_for_each_port = False, current_count = 0\<rparr>
       = (2, (), \<lparr>start_value = 0, step_value = 1, stop_value = 2, action = INCR,
                  restart_for_each_port = False, current_count = 1\<rparr>)
   \<and> get_current_value (\<lambda>g lo hi. (hi, g)) ()
        \<lparr>start_value = 0, step_value = 1, stop_value = 2, action = INCR,
         restart_for_each_port = False, current_count = 1\<rparr>
       = (2, (), \<lparr>start_value = 0, step_value = 1, stop_value = 2, action = INCR,
                  restart_for_each_port = False, current_count = 2\<rparr>)"
  by (simp add: get_current_value_def Let_def split_beta)

text \<open>
  Claim C2. A field bound to a value range is meant to return its bit-string with
  \<open>bit_length\<close> bits replaced. The last operand of the concatenation is the single
  character \<open>self.value[position + bit_length]\<close>: for every bound field whose value has
  exactly \<open>bit_length\<close> symbols and whose position is not negative, that index is outside
  the value and \<open>prepare\<close> raises \<open>IndexError\<close>; so it does on an 8-bit field at position
  0. A field with no value range returns its stored value.
\<close>

theorem SegmentField_prepare_bound:
  "fst (SegmentField_prepare randint g
          \<lparr>name = nm, value_str = v, bit_length = int (length v),
           bit_segment_position = int pos, hw_modifier = hw, value_range = Some vr\<rparr>)
     = Inl IndexError
   \<and> fst (SegmentField_prepare (\<lambda>g lo hi. (lo, g)) ()
          \<lparr>name = ''ttl'', value_str = ''00000000'', bit_length = 8,
           bit_segment_position = 0, hw_modifier = None,
           value_range = Some \<lparr>start_value = 0, step_value = 1, stop_value = 2, action = INCR,
                               restart_for_each_port = False, current_count = 0\<rparr>\<rparr>)
     = Inl IndexError
   \<and> fst (SegmentField_prepare randint g
          \<lparr>name = nm, value_str = v, bit_length = n,
           bit_segment_position = p, hw_modifier = hw, value_range = None\<rparr>)
     = Inr v"
proof -
  have i: "py_index (length v) (int pos + int (length v)) = None"
    by (simp add: py_index_def Let_def)
  have a: "fst (SegmentField_prepare randint g
          \<lparr>name = nm, value_str = v, bit_length = int (length v),
           bit_segment_position = int pos, hw_modifier = hw, value_range = Some vr\<rparr>)
     = Inl IndexError"
    using i by (simp add: SegmentField_prepare_def apply_value_range_if_exists_def
        str_getitem_def Let_def split_beta)
  have b: "fst (SegmentField_prepare (\<lambda>g lo hi. (lo, g)) ()
          \<lparr>name = ''ttl'', value_str = ''00000000'', bit_length = 8,
           bit_segment_position = 0, hw_modifier = None,
           value_range = Some \<lparr>start_value = 0, step_value = 1, stop_value = 2, action = INCR,
                               restart_for_each_port = False, current_count = 0\<rparr>\<rparr>)
     = Inl IndexError"
    by (simp add: SegmentField_prepare_def apply_value_range_if_exists_def
        str_getitem_def py_index_def Let_def split_beta)
  have c: "fst (SegmentField_prepare randint g
          \<lparr>name = nm, value_str = v, bit_length = n,
           bit_segment_position = p, hw_modifier = hw, value_range = None\<rparr>)
     = Inr v"
    by (simp add: SegmentField_prepare_def apply_value_range_if_exists_def)
  show ?thesis using a b c by blast
qed





text \<open>
  Claim C9. \<open>set_field_value(v)\<close> succeeds exactly when \<open>len(v) == bit_length\<close>; then the
  stored value becomes \<open>v\<close>, whatever symbols \<open>v\<close> is made of. Otherwise it raises the
  length-mismatch error and the field is left as it was.
\<close>

theorem set_field_value_length:
  "(fst (set_field_value f v) = Inr () \<longleftrightarrow> int (length v) = bit_length f) \<and>
   (int (length v) = bit_length f \<longrightarrow> set_field_value f v = (Inr (), f\<lparr>value_str := v\<rparr>)) \<and>
   (int (length v) \<noteq> bit_length f \<longrightarrow> set_field_value f v = (Inl FieldLengthMismatch, f))"
  by (simp add: set_field_value_def)

text \<open>A 16-bit field accepts a 16-symbol value and rejects a 4-symbol one.\<close>

theorem set_field_value_length_witness:
  "set_field_value \<lparr>name = ''ether type'', value_str = ''1111111111111111'', bit_length = 16,
       bit_segment_position = 96, hw_modifier = None, value_range = None\<rparr> ''0000100000000000''
     = (Inr (), \<lparr>name = ''ether type'', value_str = ''0000100000000000'', bit_length = 16,
       bit_segment_position = 96, hw_modifier = None, value_range = None\<rparr>)
   \<and> set_field_value \<lparr>name = ''ether type'', value_str = ''1111111111111111'', bit_length = 16,
       bit_segment_position = 96, hw_modifier = None, value_range = None\<rparr> ''0101''
     = (Inl FieldLengthMismatch, \<lparr>name = ''ether type'', value_str = ''1111111111111111'', bit_length = 16,
       bit_segment_position = 96, hw_modifier = None, value_range = None\<rparr>)"
  using set_field_value_length [of "\<lparr>name = ''ether type'', value_str = ''1111111111111111'', bit_length = 16,
       bit_segment_position = 96, hw_modifier = None, value_range = None\<rparr>" "''0000100000000000''"]
    set_field_value_length [of "\<lparr>name = ''ether type'', value_str = ''1111111111111111'', bit_length = 16,
       bit_segment_position = 96, hw_modifier = None, value_range = None\<rparr>" "''0101''"]
  by simp

end
